theory Spec2Isabelle
  imports Main "HOL-Library.Word"
begin

section \<open>The program \<open>examples/sample_c.c\<close>\<close>

text \<open>
  The file holds four C functions, \<open>main\<close>, \<open>calculate\<close>, \<open>helper\<close> and
  \<open>display\<close>, each guarded by \<open>assert\<close>. The embedding keeps three things
  of the C program that a plain arithmetic reading would lose:
  \<^item> \<open>int\<close> is a 32-bit two's complement integer, here \<open>32 word\<close>; \<open>+\<close> and
    \<open>*\<close> wrap around modulo \<open>2 ^ 32\<close> and comparisons read both sides with
    \<open>sint\<close>. (ISO C leaves signed overflow undefined; wrap-around is what the
    machine does.)
  \<^item> a failed \<open>assert\<close> aborts the process: a function returns either a value
    (\<open>Inr\<close>) or the failed assertion (\<open>Inl\<close>), and nothing after the failed
    check is executed.
  \<^item> standard output is a state: every function takes the characters written so
    far and returns them, extended by what it printed, also when it aborts.
\<close>

type_synonym c_int = "32 word"

text \<open>A failed \<open>assert\<close>, identified by the enclosing function and the expression.\<close>

datatype abort = Assertion_failed string string

text \<open>The characters written to standard output so far.\<close>

type_synonym stdout = string

type_synonym 'a outcome = "(abort + 'a) \<times> stdout"

subsection \<open>The C library's \<open>printf("Result: %d\n", value)\<close>\<close>

text \<open>\<open>%d\<close> writes a signed integer in decimal, with a minus sign when negative.\<close>

fun dec_digits :: "nat \<Rightarrow> string" where
  "dec_digits n =
     (if n < 10 then [''0123456789'' ! n]
      else dec_digits (n div 10) @ [''0123456789'' ! (n mod 10)])"

declare dec_digits.simps [simp del]

definition printf_d :: "int \<Rightarrow> string" where
  "printf_d i = (if i < 0 then CHR ''-'' # dec_digits (nat (- i)) else dec_digits (nat i))"

definition printf_Result :: "c_int \<Rightarrow> string" where
  "printf_Result val = ''Result: '' @ printf_d (sint val) @ [CHR 0x0A]"

subsection \<open>\<open>helper\<close>\<close>

text \<open>
  \<^verbatim>\<open>int result = x + 5;  assert(result > x);  return result;\<close>
\<close>

definition helper :: "c_int \<Rightarrow> stdout \<Rightarrow> c_int outcome" where
  "helper x out =
     (let result = x + 5 in
      if sint result > sint x then (Inr result, out)
      else (Inl (Assertion_failed ''helper'' ''result > x''), out))"

subsection \<open>\<open>calculate\<close>\<close>

text \<open>
  \<^verbatim>\<open>assert(x > 0);  int temp = helper(x);  int result = temp * 2;\<close>
  \<^verbatim>\<open>assert(result > x);  return result;\<close>
\<close>

definition calculate :: "c_int \<Rightarrow> stdout \<Rightarrow> c_int outcome" where
  "calculate x out =
     (if \<not> sint x > 0 then (Inl (Assertion_failed ''calculate'' ''x > 0''), out)
      else case helper x out of
        (Inl a, out1) \<Rightarrow> (Inl a, out1)
      | (Inr temp, out1) \<Rightarrow>
          (let result = temp * 2 in
           if sint result > sint x then (Inr result, out1)
           else (Inl (Assertion_failed ''calculate'' ''result > x''), out1)))"

subsection \<open>\<open>display\<close>\<close>

text \<open>
  \<^verbatim>\<open>printf("Result: %d\n", value);  assert(value >= 0);\<close>
  The line is written first; the check follows.
\<close>

definition display :: "c_int \<Rightarrow> stdout \<Rightarrow> unit outcome" where
  "display val out =
     (let out1 = out @ printf_Result val in
      if sint val \<ge> 0 then (Inr (), out1)
      else (Inl (Assertion_failed ''display'' ''value >= 0''), out1))"

subsection \<open>\<open>main\<close>\<close>

text \<open>
  \<^verbatim>\<open>int result = calculate(10);  display(result);  assert(result > 0);  return 0;\<close>
  The value returned is the exit code of the process.
\<close>

definition main :: "stdout \<Rightarrow> c_int outcome" where
  "main out =
     (case calculate 10 out of
        (Inl a, out1) \<Rightarrow> (Inl a, out1)
      | (Inr result, out1) \<Rightarrow>
          (case display result out1 of
             (Inl a, out2) \<Rightarrow> (Inl a, out2)
           | (Inr _, out2) \<Rightarrow>
               if sint result > 0 then (Inr 0, out2)
               else (Inl (Assertion_failed ''main'' ''result > 0''), out2)))"

section \<open>Signed 32-bit arithmetic\<close>

text \<open>
  \<open>sint\<close> of a sum or product is the exact result reduced into
  \<open>[- 2 ^ 31, 2 ^ 31)\<close>. The three lemmas on \<open>signed_take_bit 31\<close> give the
  reduction in the range of each operation of the program.
\<close>

lemma sint_32_range: "- 2147483648 \<le> sint (x :: c_int) \<and> sint x \<le> 2147483647"
  using sint_ge[of x] sint_lt[of x] by simp

lemma stb31: "signed_take_bit 31 (k::int) = (k + 2147483648) mod 4294967296 - 2147483648"
  by (simp add: signed_take_bit_eq_take_bit_shift take_bit_eq_mod)

lemma stb31_id: "- 2147483648 \<le> k \<Longrightarrow> k \<le> 2147483647 \<Longrightarrow> signed_take_bit 31 (k::int) = k"
  by (simp add: stb31)

lemma stb31_hi:
  assumes "2147483648 \<le> k" "k \<le> 6442450943"
  shows "signed_take_bit 31 (k::int) = k - 4294967296"
proof -
  have "(k + 2147483648) mod 4294967296 = (k + 2147483648 - 4294967296) mod 4294967296"
    by (simp only: minus_mod_self2)
  also have "\<dots> = k + 2147483648 - 4294967296"
    using assms by (intro mod_pos_pos_trivial) simp_all
  finally show ?thesis by (simp add: stb31)
qed

lemma stb31_lo:
  assumes "- 6442450944 \<le> k" "k \<le> - 2147483649"
  shows "signed_take_bit 31 (k::int) = k + 4294967296"
proof -
  have "(k + 2147483648) mod 4294967296 = (k + 2147483648 + 4294967296) mod 4294967296"
    by (simp only: mod_add_self2)
  also have "\<dots> = k + 2147483648 + 4294967296"
    using assms by (intro mod_pos_pos_trivial) simp_all
  finally show ?thesis by (simp add: stb31)
qed

lemma sint_add5: "sint (x + 5 :: c_int) = (if sint x \<le> 2147483642 then sint x + 5 else sint x + 5 - 4294967296)"
  using sint_32_range[of x]
  by (simp add: sint_word_ariths stb31_id stb31_hi)

lemma sint_mul2: "sint (t * 2 :: c_int) =
   (if sint t < - 1073741824 then sint t * 2 + 4294967296
    else if sint t \<le> 1073741823 then sint t * 2 else sint t * 2 - 4294967296)"
  using sint_32_range[of t]
  by (simp add: sint_word_ariths stb31_id stb31_hi stb31_lo)

section \<open>What each function evaluates to\<close>

lemma helper_eval:
  "helper x out =
     (if sint x \<le> 2147483642 then Inr (x + 5)
      else Inl (Assertion_failed ''helper'' ''result > x''), out)"
  using sint_32_range[of x] by (simp add: helper_def Let_def sint_add5)

lemma sint_helper_doubled:
  assumes "0 < sint x" "sint x \<le> 2147483642"
  shows "sint ((x + 5) * 2 :: c_int) =
           (if sint x \<le> 1073741818 then (sint x + 5) * 2 else (sint x + 5) * 2 - 4294967296)"
proof -
  define t where "t = x + 5"
  have "sint t = sint x + 5"
    using assms by (simp add: t_def sint_add5)
  then have "sint (t * 2) =
      (if sint x \<le> 1073741818 then (sint x + 5) * 2 else (sint x + 5) * 2 - 4294967296)"
    using assms by (simp add: sint_mul2 [of t])
  then show ?thesis
    unfolding t_def .
qed

lemma calculate_eval:
  "calculate x out =
     (if sint x \<le> 0 then Inl (Assertion_failed ''calculate'' ''x > 0'')
      else if sint x \<le> 1073741818 then Inr ((x + 5) * 2)
      else if sint x \<le> 2147483642 then Inl (Assertion_failed ''calculate'' ''result > x'')
      else Inl (Assertion_failed ''helper'' ''result > x''), out)"
proof (cases "0 < sint x \<and> sint x \<le> 2147483642")
  case True
  then have "sint ((x + 5) * 2) =
      (if sint x \<le> 1073741818 then (sint x + 5) * 2 else (sint x + 5) * 2 - 4294967296)"
    by (simp only: sint_helper_doubled)
  with True show ?thesis
    by (simp add: calculate_def helper_eval Let_def del: distrib_right_numeral) simp
next
  case False
  then show ?thesis
    by (auto simp add: calculate_def helper_eval)
qed

lemma sint_calculate:
  "0 < sint x \<Longrightarrow> sint x \<le> 1073741818 \<Longrightarrow> sint ((x + 5) * 2 :: c_int) = (sint x + 5) * 2"
  by (simp only: sint_helper_doubled if_True)

section \<open>The claims\<close>

subsection \<open>\<open>calculate\<close> returns \<open>(x + 5) * 2\<close>\<close>

text \<open>
  Claim C1, as amended: for every \<open>int\<close> \<open>x\<close> with \<open>0 < x \<le> 1073741818\<close>, \<open>calculate x\<close>
  returns \<open>(x + 5) * 2\<close>, which is \<open>helper x\<close> doubled; the value is the exact
  integer \<open>(x + 5) * 2\<close>, without wrap-around, and standard output is left as it was.
\<close>

theorem calculate_returns_doubled_helper:
  assumes "0 < sint x" and "sint x \<le> 1073741818"
  shows "helper x out = (Inr (x + 5), out) \<and>
         calculate x out = (Inr ((x + 5) * 2), out) \<and>
         sint ((x + 5) * 2) = (sint x + 5) * 2"
proof (intro conjI)
  show "helper x out = (Inr (x + 5), out)"
    using assms by (simp add: helper_eval)
  show "calculate x out = (Inr ((x + 5) * 2), out)"
    using assms by (simp add: calculate_eval)
  show "sint ((x + 5) * 2) = (sint x + 5) * 2"
    using assms by (rule sint_calculate)
qed

theorem calculate_returns_doubled_helper_witness:
  "0 < sint (10 :: c_int) \<and> sint (10 :: c_int) \<le> 1073741818 \<and>
   helper 10 [] = (Inr 15, []) \<and> calculate 10 [] = (Inr 30, []) \<and> sint (30 :: c_int) = (10 + 5) * 2"
  using calculate_returns_doubled_helper [of 10 "[]"] by simp

text \<open>
  The bound is needed. At \<open>x = 2147483647\<close>, the largest \<open>int\<close>, \<open>x + 5\<close> wraps to a
  negative value inside \<open>helper\<close>, whose assertion fails: \<open>calculate\<close> does not return.
\<close>

theorem calculate_returns_counterexample:
  "0 < sint (2147483647 :: c_int) \<and>
   calculate 2147483647 [] = (Inl (Assertion_failed ''helper'' ''result > x''), []) \<and>
   calculate 2147483647 [] \<noteq> (Inr ((2147483647 + 5) * 2), [])"
  by (simp add: calculate_def helper_def)

subsection \<open>The whole program\<close>

text \<open>
  Claim C2: \<open>main\<close>, started with nothing written to standard output, writes exactly
  the one line \<open>Result: 30\<close> followed by a newline, and returns the exit code 0.
\<close>

theorem main_prints_result_30:
  "main [] = (Inr 0, ''Result: 30'' @ [CHR 0x0A])"
  by (simp add: main_def calculate_def helper_def display_def printf_Result_def
      printf_d_def dec_digits.simps)

subsection \<open>\<open>helper\<close> returns \<open>x + 5\<close>\<close>

text \<open>
  Claim C3, as amended: for every \<open>int\<close> \<open>x \<le> 2147483642\<close>, \<open>helper x\<close> returns \<open>x + 5\<close>
  (the exact integer, without wrap-around) and has no side effect: standard output is
  returned as it was received.
\<close>

theorem helper_returns_plus_5:
  assumes "sint x \<le> 2147483642"
  shows "helper x out = (Inr (x + 5), out) \<and> sint (x + 5) = sint x + 5"
  using assms by (simp add: helper_eval sint_add5)

theorem helper_returns_plus_5_witness:
  "sint (-7 :: c_int) \<le> 2147483642 \<and> helper (-7) [] = (Inr (-2), []) \<and> sint (-2 :: c_int) = -7 + 5"
  using helper_returns_plus_5 [of "-7" "[]"] by simp

text \<open>
  Every value of type \<open>int\<close> is a valid argument, and for the five largest ones
  \<open>helper\<close> does not return: at \<open>x = 2147483643\<close> the sum wraps to \<open>- 2147483648\<close> and the
  assertion \<open>result > x\<close> aborts.
\<close>

theorem helper_returns_counterexample:
  "helper 2147483643 [] = (Inl (Assertion_failed ''helper'' ''result > x''), []) \<and>
   helper 2147483643 [] \<noteq> (Inr (2147483643 + 5), [])"
  by (simp add: helper_def)

subsection \<open>The precondition of \<open>calculate\<close>\<close>

text \<open>
  Claim C4: for every \<open>int\<close> \<open>x \<le> 0\<close>, \<open>calculate x\<close> aborts on its first check,
  \<open>assert(x > 0)\<close>, and returns no value; \<open>helper\<close> is not reached.
\<close>

theorem calculate_aborts_on_nonpositive:
  assumes "sint x \<le> 0"
  shows "calculate x out = (Inl (Assertion_failed ''calculate'' ''x > 0''), out)"
  using assms by (simp add: calculate_def)

theorem calculate_aborts_on_nonpositive_witness:
  "sint (0 :: c_int) \<le> 0 \<and> calculate 0 [] = (Inl (Assertion_failed ''calculate'' ''x > 0''), []) \<and>
   sint (-3 :: c_int) \<le> 0 \<and> calculate (-3) [] = (Inl (Assertion_failed ''calculate'' ''x > 0''), [])"
  using calculate_aborts_on_nonpositive [of 0 "[]"] calculate_aborts_on_nonpositive [of "-3" "[]"]
  by simp

subsection \<open>The postcondition of \<open>helper\<close>\<close>

text \<open>
  Claim C5, as amended: for every \<open>int\<close> \<open>x\<close> whose sum \<open>x + 5\<close> does not overflow, that is
  for \<open>x \<le> 2147483642\<close>, \<open>helper\<close> returns \<open>x + 5\<close>, which exceeds \<open>x\<close>, so the assertion
  \<open>result > x\<close> succeeds; with \<open>int\<close> arithmetic wrapping around modulo \<open>2 ^ 32\<close>, the
  assertion fails exactly when the integer \<open>x + 5\<close> exceeds 2147483647.
\<close>

theorem helper_fails_only_on_overflow:
  "((\<exists>a. helper x out = (Inl a, out)) \<longleftrightarrow> 2147483647 < sint x + 5) \<and>
   (sint x + 5 \<le> 2147483647 \<longrightarrow>
      helper x out = (Inr (x + 5), out) \<and> sint (x + 5) = sint x + 5 \<and> sint x < sint (x + 5))"
  by (simp add: helper_eval sint_add5)

theorem helper_fails_only_on_overflow_witness:
  "sint (2147483642 :: c_int) + 5 \<le> 2147483647 \<and>
   helper 2147483642 [] = (Inr 2147483647, []) \<and>
   sint (2147483642 :: c_int) < sint (2147483647 :: c_int) \<and>
   2147483647 < sint (2147483643 :: c_int) + 5 \<and>
   (\<exists>a. helper 2147483643 [] = (Inl a, []))"
  using helper_fails_only_on_overflow [of 2147483642 "[]"]
    helper_fails_only_on_overflow [of 2147483643 "[]"]
  by simp

text \<open>
  The assertion does fail for the five largest values of \<open>int\<close>. At \<open>x = 2147483643\<close>
  the sum wraps to \<open>- 2147483648\<close>, which does not exceed \<open>x\<close>, and \<open>helper\<close> aborts.
\<close>

theorem helper_postcondition_counterexample:
  "sint (2147483643 + 5 :: c_int) = - 2147483648 \<and>
   \<not> sint (2147483643 :: c_int) < sint (2147483643 + 5 :: c_int) \<and>
   helper 2147483643 [] = (Inl (Assertion_failed ''helper'' ''result > x''), [])"
  by (simp add: helper_def)

subsection \<open>The postcondition of \<open>calculate\<close>\<close>

text \<open>
  Claim C6, as amended: for every \<open>int\<close> \<open>x\<close> with \<open>0 < x \<le> 1073741818\<close>, \<open>calculate x\<close>
  returns a value that exceeds \<open>x\<close>: the assertion \<open>result > x\<close> inside \<open>calculate\<close>
  succeeds.
\<close>

theorem calculate_postcondition_holds:
  assumes "0 < sint x" and "sint x \<le> 1073741818"
  shows "\<exists>result. calculate x out = (Inr result, out) \<and> sint x < sint result"
proof -
  have "sint x < sint ((x + 5) * 2)"
    using assms by (simp only: sint_calculate) simp
  moreover have "calculate x out = (Inr ((x + 5) * 2), out)"
    using assms by (simp add: calculate_eval)
  ultimately show ?thesis by blast
qed

theorem calculate_postcondition_holds_witness:
  "0 < sint (1073741818 :: c_int) \<and> sint (1073741818 :: c_int) \<le> 1073741818 \<and>
   (\<exists>result. calculate 1073741818 [] = (Inr result, []) \<and> sint (1073741818 :: c_int) < sint result)"
  using calculate_postcondition_holds [of 1073741818 "[]"] by simp

text \<open>
  The precondition \<open>x > 0\<close> alone does not keep the abort branch unreachable. At
  \<open>x = 1073741819\<close>, \<open>helper\<close> returns \<open>1073741824 = 2 ^ 30\<close>, doubling it wraps to
  \<open>- 2 ^ 31\<close>, and the assertion \<open>result > x\<close> of \<open>calculate\<close> fails.
\<close>

theorem calculate_postcondition_counterexample:
  "0 < sint (1073741819 :: c_int) \<and>
   helper 1073741819 [] = (Inr 1073741824, []) \<and>
   sint (1073741824 * 2 :: c_int) = - 2147483648 \<and>
   calculate 1073741819 [] = (Inl (Assertion_failed ''calculate'' ''result > x''), [])"
  by (simp add: calculate_def helper_def)

subsection \<open>\<open>display\<close> prints before it checks\<close>

text \<open>
  Claim C7: for a negative argument, \<open>display\<close> first appends the line
  \<open>Result: -\<close>\<^emph>\<open>digits\<close> and a newline to standard output and then aborts on
  \<open>assert(value >= 0)\<close>; the output is there although the check failed. For
  \<open>display(-1)\<close> the line is \<open>Result: -1\<close>.
\<close>

theorem display_prints_before_check:
  assumes "sint val < 0"
  shows "display val out =
           (Inl (Assertion_failed ''display'' ''value >= 0''),
            out @ ''Result: -'' @ dec_digits (nat (- sint val)) @ [CHR 0x0A])"
  using assms by (simp add: display_def printf_Result_def printf_d_def)

theorem display_prints_before_check_witness:
  "sint (-1 :: c_int) < 0 \<and>
   display (-1) [] = (Inl (Assertion_failed ''display'' ''value >= 0''), ''Result: -1'' @ [CHR 0x0A])"
  using display_prints_before_check [of "-1" "[]"] by (simp add: dec_digits.simps)

subsection \<open>\<open>calculate\<close> is pure and deterministic\<close>

text \<open>
  Claim C8, as amended: for every \<open>int\<close> \<open>x\<close> with \<open>0 < x \<le> 1073741818\<close>, two invocations
  of \<open>calculate x\<close>, whatever standard output held before each, return the same value,
  the value \<open>x + 5\<close> returned by the nested \<open>helper x\<close> doubled; neither \<open>calculate\<close> nor
  \<open>helper\<close> writes output or changes the state, so invoking \<open>calculate x\<close> again on the
  state the first invocation left gives the same result.
\<close>

theorem calculate_pure_deterministic:
  assumes "0 < sint x" and "sint x \<le> 1073741818"
  shows "helper x out1 = (Inr (x + 5), out1) \<and>
         calculate x out1 = (Inr ((x + 5) * 2), out1) \<and>
         calculate x out2 = (Inr ((x + 5) * 2), out2) \<and>
         calculate x (snd (calculate x out1)) = calculate x out1"
proof -
  have c: "calculate x out = (Inr ((x + 5) * 2), out)" for out
    using assms by (simp add: calculate_eval)
  have "helper x out1 = (Inr (x + 5), out1)"
    using assms by (simp add: helper_eval)
  moreover have "calculate x (snd (calculate x out1)) = calculate x out1"
    by (simp only: c snd_conv)
  ultimately show ?thesis
    using c [of out1] c [of out2] by (simp only: simp_thms)
qed

theorem calculate_pure_deterministic_witness:
  "0 < sint (10 :: c_int) \<and> sint (10 :: c_int) \<le> 1073741818 \<and>
   helper 10 [] = (Inr 15, []) \<and>
   calculate 10 [] = (Inr 30, []) \<and>
   calculate 10 ''Result: 30'' = (Inr 30, ''Result: 30'') \<and>
   calculate 10 (snd (calculate 10 [])) = calculate 10 []"
  using calculate_pure_deterministic [of 10 "[]" "''Result: 30''"] by simp

text \<open>
  For larger \<open>x > 0\<close> no value is returned at all: at \<open>x = 2000000000\<close> the
  assertion \<open>result > x\<close> fails and the process is aborted.
\<close>

theorem calculate_pure_counterexample:
  "0 < sint (2000000000 :: c_int) \<and>
   calculate 2000000000 [] = (Inl (Assertion_failed ''calculate'' ''result > x''), [])"
  by (simp add: calculate_def helper_def)

subsection \<open>\<open>calculate\<close> returns an even number\<close>

text \<open>
  Claim C9, as amended: for every \<open>int\<close> \<open>x\<close> with \<open>0 < x \<le> 1073741818\<close>, \<open>calculate x\<close>
  returns an even number, the integer \<open>2 * (x + 5)\<close>.
\<close>

theorem calculate_even:
  assumes "0 < sint x" and "sint x \<le> 1073741818"
  shows "\<exists>r. calculate x out = (Inr r, out) \<and> even (sint r) \<and> sint r = 2 * (sint x + 5)"
proof -
  have "sint ((x + 5) * 2) = 2 * (sint x + 5)"
    using sint_calculate [OF assms] by simp
  moreover have "calculate x out = (Inr ((x + 5) * 2), out)"
    using assms by (simp add: calculate_eval)
  ultimately show ?thesis
    by (intro exI [of _ "(x + 5) * 2"]) (simp del: distrib_right_numeral)
qed

theorem calculate_even_witness:
  "0 < sint (1 :: c_int) \<and> sint (1 :: c_int) \<le> 1073741818 \<and>
   (\<exists>r. calculate 1 [] = (Inr r, []) \<and> even (sint r) \<and> sint r = 2 * (1 + 5))"
  using calculate_even [of 1 "[]"] by simp

text \<open>
  At \<open>x = 1500000000\<close> there is no returned value to be even: \<open>calculate\<close> aborts.
\<close>

theorem calculate_even_counterexample:
  "0 < sint (1500000000 :: c_int) \<and>
   calculate 1500000000 [] = (Inl (Assertion_failed ''calculate'' ''result > x''), []) \<and>
   calculate 1500000000 [] \<noteq> (Inr (2 * (1500000000 + 5)), [])"
  by (simp add: calculate_def helper_def)

subsection \<open>\<open>helper\<close> and \<open>calculate\<close> are strictly increasing\<close>

text \<open>
  Claim C10, as amended: for all \<open>int\<close> \<open>x < y \<le> 2147483642\<close>, \<open>helper x\<close> and
  \<open>helper y\<close> both return and the first value is smaller; for all
  \<open>0 < x < y \<le> 1073741818\<close>, \<open>calculate x\<close> and \<open>calculate y\<close> both return and the
  first value is smaller.
\<close>

theorem helper_calculate_strictly_monotone:
  "(sint x < sint y \<and> sint y \<le> 2147483642 \<longrightarrow>
      (\<exists>a b. helper x out = (Inr a, out) \<and> helper y out = (Inr b, out) \<and> sint a < sint b)) \<and>
   (0 < sint x \<and> sint x < sint y \<and> sint y \<le> 1073741818 \<longrightarrow>
      (\<exists>a b. calculate x out = (Inr a, out) \<and> calculate y out = (Inr b, out) \<and> sint a < sint b))"
proof (intro conjI impI)
  assume h: "sint x < sint y \<and> sint y \<le> 2147483642"
  then have "helper x out = (Inr (x + 5), out)" "helper y out = (Inr (y + 5), out)"
    by (simp_all add: helper_eval)
  moreover have "sint (x + 5) < sint (y + 5)"
    using h by (simp add: sint_add5)
  ultimately show "\<exists>a b. helper x out = (Inr a, out) \<and> helper y out = (Inr b, out) \<and> sint a < sint b"
    by blast
next
  assume c: "0 < sint x \<and> sint x < sint y \<and> sint y \<le> 1073741818"
  then have "calculate x out = (Inr ((x + 5) * 2), out)" "calculate y out = (Inr ((y + 5) * 2), out)"
    by (simp_all add: calculate_eval)
  moreover have "sint ((x + 5) * 2) = (sint x + 5) * 2"
    using c by (intro sint_calculate) simp_all
  moreover have "sint ((y + 5) * 2) = (sint y + 5) * 2"
    using c by (intro sint_calculate) simp_all
  moreover have "(sint x + 5) * 2 < (sint y + 5) * 2"
    using c by simp
  ultimately show "\<exists>a b. calculate x out = (Inr a, out) \<and> calculate y out = (Inr b, out) \<and> sint a < sint b"
    by (intro exI [of _ "(x + 5) * 2"] exI [of _ "(y + 5) * 2"]) (simp del: distrib_right_numeral)
qed

theorem helper_calculate_strictly_monotone_witness:
  "sint (-4 :: c_int) < sint (3 :: c_int) \<and> sint (3 :: c_int) \<le> 2147483642 \<and>
   (\<exists>a b. helper (-4) [] = (Inr a, []) \<and> helper 3 [] = (Inr b, []) \<and> sint a < sint b) \<and>
   0 < sint (2 :: c_int) \<and> sint (2 :: c_int) < sint (3 :: c_int) \<and> sint (3 :: c_int) \<le> 1073741818 \<and>
   (\<exists>a b. calculate 2 [] = (Inr a, []) \<and> calculate 3 [] = (Inr b, []) \<and> sint a < sint b)"
  using helper_calculate_strictly_monotone [of "-4" 3 "[]"]
    helper_calculate_strictly_monotone [of 2 3 "[]"]
  by simp

text \<open>
  Without the upper bounds the larger argument may have no value to compare:
  \<open>helper 2147483647\<close> aborts although \<open>helper 1\<close> returns 6, and
  \<open>calculate 1073741820\<close> aborts although \<open>calculate 1\<close> returns 12.
\<close>

theorem helper_calculate_monotone_counterexample:
  "sint (1 :: c_int) < sint (2147483647 :: c_int) \<and>
   helper 1 [] = (Inr 6, []) \<and>
   helper 2147483647 [] = (Inl (Assertion_failed ''helper'' ''result > x''), []) \<and>
   0 < sint (1 :: c_int) \<and>
   calculate 1 [] = (Inr 12, []) \<and>
   calculate 1073741820 [] = (Inl (Assertion_failed ''calculate'' ''result > x''), [])"
  by (simp add: calculate_def helper_def)

end
